theory Spec2Isabelle
  imports Main "HOL-Library.Char_ord" "HOL-Library.List_Lexorder" "HOL-Library.Multiset"
begin

section \<open>Go strings\<close>

text \<open>
  A Go string is a sequence of bytes: \<^verbatim>\<open>len\<close> counts bytes, indexing and slicing
  work on bytes, and only \<^verbatim>\<open>range\<close> and \<^verbatim>\<open>[]rune(s)\<close> decode UTF-8. A string is
  modelled as a \<^typ>\<open>string\<close>, one \<^typ>\<open>char\<close> per byte, so \<^const>\<open>length\<close> is
  Go's \<^verbatim>\<open>len\<close>. A rune is a \<^typ>\<open>nat\<close>.
\<close>

definition HasPrefix :: "string \<Rightarrow> string \<Rightarrow> bool" where
  "HasPrefix s p = (take (length p) s = p)"

definition HasSuffix :: "string \<Rightarrow> string \<Rightarrow> bool" where
  "HasSuffix s p = (length p \<le> length s \<and> drop (length s - length p) s = p)"

definition TrimSuffix :: "string \<Rightarrow> string \<Rightarrow> string" where
  "TrimSuffix s p = (if HasSuffix s p then take (length s - length p) s else s)"

text \<open>\<^verbatim>\<open>strings.Index\<close> and \<^verbatim>\<open>strings.LastIndex\<close> for a one-byte separator; -1 when absent.\<close>

fun IndexByte :: "string \<Rightarrow> char \<Rightarrow> int" where
  "IndexByte [] c = -1"
| "IndexByte (b # bs) c =
     (if b = c then 0 else (let r = IndexByte bs c in if r < 0 then -1 else r + 1))"

fun LastIndexByte :: "string \<Rightarrow> char \<Rightarrow> int" where
  "LastIndexByte [] c = -1"
| "LastIndexByte (b # bs) c =
     (let r = LastIndexByte bs c in if 0 \<le> r then r + 1 else if b = c then 0 else -1)"

fun Contains :: "string \<Rightarrow> string \<Rightarrow> bool" where
  "Contains [] sub = (sub = [])"
| "Contains (b # bs) sub = (HasPrefix (b # bs) sub \<or> Contains bs sub)"

text \<open>\<^verbatim>\<open>strings.Split(s, sep)\<close> for a one-byte separator: always at least one part.\<close>

fun Split :: "string \<Rightarrow> char \<Rightarrow> string list" where
  "Split [] c = [[]]"
| "Split (b # bs) c =
     (if b = c then [] # Split bs c
      else (case Split bs c of [] \<Rightarrow> [[b]] | l # ls \<Rightarrow> (b # l) # ls))"

text \<open>\<^verbatim>\<open>strings.SplitN(s, sep, 2)\<close>: cut at the first separator, one part when there is none.\<close>

definition SplitN2 :: "string \<Rightarrow> char \<Rightarrow> string list" where
  "SplitN2 s c =
     (let i = IndexByte s c in
      if i < 0 then [s] else [take (nat i) s, drop (nat i + 1) s])"

text \<open>\<^verbatim>\<open>strings.TrimRight(s, cutset)\<close> for a cutset of ASCII bytes.\<close>

definition TrimRight :: "string \<Rightarrow> string \<Rightarrow> string" where
  "TrimRight s cutset = rev (dropWhile (\<lambda>c. List.member cutset c) (rev s))"

subsection \<open>UTF-8\<close>

definition RuneError :: nat where
  "RuneError = 0xFFFD"

definition cont :: "nat \<Rightarrow> bool" where
  "cont b = (0x80 \<le> b \<and> b \<le> 0xBF)"

text \<open>
  \<^verbatim>\<open>utf8.DecodeRuneInString\<close>: the rune at the start of a non-empty string and its width
  in bytes. Every ill-formed sequence (a stray continuation byte, an overlong form, a
  surrogate, a truncated sequence) decodes to \<^const>\<open>RuneError\<close> of width 1.
\<close>

fun DecodeRune :: "nat list \<Rightarrow> nat \<times> nat" where
  "DecodeRune [] = (RuneError, 0)"
| "DecodeRune (b0 # bs) =
     (if b0 < 0x80 then (b0, 1)
      else if 0xC2 \<le> b0 \<and> b0 \<le> 0xDF then
        (case bs of
           b1 # _ \<Rightarrow> if cont b1 then ((b0 - 0xC0) * 64 + (b1 - 0x80), 2) else (RuneError, 1)
         | _ \<Rightarrow> (RuneError, 1))
      else if 0xE0 \<le> b0 \<and> b0 \<le> 0xEF then
        (case bs of
           b1 # b2 # _ \<Rightarrow>
             if (if b0 = 0xE0 then 0xA0 else 0x80) \<le> b1
                \<and> b1 \<le> (if b0 = 0xED then 0x9F else 0xBF) \<and> cont b2
             then ((b0 - 0xE0) * 4096 + (b1 - 0x80) * 64 + (b2 - 0x80), 3)
             else (RuneError, 1)
         | _ \<Rightarrow> (RuneError, 1))
      else if 0xF0 \<le> b0 \<and> b0 \<le> 0xF4 then
        (case bs of
           b1 # b2 # b3 # _ \<Rightarrow>
             if (if b0 = 0xF0 then 0x90 else 0x80) \<le> b1
                \<and> b1 \<le> (if b0 = 0xF4 then 0x8F else 0xBF) \<and> cont b2 \<and> cont b3
             then ((b0 - 0xF0) * 262144 + (b1 - 0x80) * 4096 + (b2 - 0x80) * 64
                   + (b3 - 0x80), 4)
             else (RuneError, 1)
         | _ \<Rightarrow> (RuneError, 1))
      else (RuneError, 1))"

text \<open>The runes of a string, as \<^verbatim>\<open>range s\<close> and \<^verbatim>\<open>[]rune(s)\<close> produce them.\<close>

fun decodeAll :: "nat list \<Rightarrow> nat list" where
  "decodeAll [] = []"
| "decodeAll (b # bs) =
     (case DecodeRune (b # bs) of (r, n) \<Rightarrow> r # decodeAll (drop (n - 1) bs))"

definition runes :: "string \<Rightarrow> nat list" where
  "runes s = decodeAll (map of_char s)"

text \<open>\<^verbatim>\<open>string(r)\<close>: the UTF-8 encoding of one rune (U+FFFD for an invalid one).\<close>

definition encodeRune :: "nat \<Rightarrow> string" where
  "encodeRune r0 =
     (let r = (if (0xD800 \<le> r0 \<and> r0 \<le> 0xDFFF) \<or> 0x10FFFF < r0 then RuneError else r0) in
      if r < 0x80 then [char_of r]
      else if r < 0x800 then [char_of (0xC0 + r div 64), char_of (0x80 + r mod 64)]
      else if r < 0x10000 then
        [char_of (0xE0 + r div 4096), char_of (0x80 + (r div 64) mod 64),
         char_of (0x80 + r mod 64)]
      else
        [char_of (0xF0 + r div 262144), char_of (0x80 + (r div 4096) mod 64),
         char_of (0x80 + (r div 64) mod 64), char_of (0x80 + r mod 64)])"

subsection \<open>Case folding and white space\<close>

text \<open>
  The Unicode tables and the libraries outside this repository are parameters of the
  model: \<^verbatim>\<open>net/mail.ParseAddress\<close> (the address of the parsed mailbox, or failure),
  the two IDNA conversions of \<^verbatim>\<open>golang.org/x/net/idna\<close>, the non-ASCII branch of
  \<^verbatim>\<open>strings.ToLower\<close>, \<^verbatim>\<open>unicode.IsLetter\<close> and \<^verbatim>\<open>unicode.IsDigit\<close> beyond
  ASCII, and the embedded text of the disposable-domain list.
\<close>

record extern =
  mail_ParseAddress :: "string \<Rightarrow> string option"
  idna_Lookup_ToASCII :: "string \<Rightarrow> string option"
  idna_Display_ToUnicode :: "string \<Rightarrow> string option"
  unicode_ToLower :: "string \<Rightarrow> string"
  unicode_IsLetter :: "nat \<Rightarrow> bool"
  unicode_IsDigit :: "nat \<Rightarrow> bool"
  rawList :: string

definition isUpper :: "char \<Rightarrow> bool" where
  "isUpper c = (CHR ''A'' \<le> c \<and> c \<le> CHR ''Z'')"

definition lowerByte :: "char \<Rightarrow> char" where
  "lowerByte c = (if isUpper c then char_of (of_char c + (32::nat)) else c)"

definition isASCII :: "string \<Rightarrow> bool" where
  "isASCII s = list_all (\<lambda>c. (of_char c :: nat) < 0x80) s"

text \<open>\<^verbatim>\<open>strings.ToLower\<close>: the ASCII fast path, else the Unicode mapping.\<close>

definition ToLower :: "extern \<Rightarrow> string \<Rightarrow> string" where
  "ToLower x s = (if isASCII s then map lowerByte s else unicode_ToLower x s)"

text \<open>
  The UTF-8 encodings of the code points with the White_Space property, which is what
  \<^verbatim>\<open>unicode.IsSpace\<close> accepts. Go decodes a rune at either end of the string and
  strips it when it is one of these; since only the shortest encoding of a rune is
  well-formed, that is the same as stripping these byte sequences.
\<close>

definition spaceSeqs :: "string list" where
  "spaceSeqs =
     [[CHR 0x09], [CHR 0x0A], [CHR 0x0B], [CHR 0x0C], [CHR 0x0D], [CHR 0x20],
      [CHR 0xC2, CHR 0x85], [CHR 0xC2, CHR 0xA0], [CHR 0xE1, CHR 0x9A, CHR 0x80],
      [CHR 0xE2, CHR 0x80, CHR 0x80], [CHR 0xE2, CHR 0x80, CHR 0x81],
      [CHR 0xE2, CHR 0x80, CHR 0x82], [CHR 0xE2, CHR 0x80, CHR 0x83],
      [CHR 0xE2, CHR 0x80, CHR 0x84], [CHR 0xE2, CHR 0x80, CHR 0x85],
      [CHR 0xE2, CHR 0x80, CHR 0x86], [CHR 0xE2, CHR 0x80, CHR 0x87],
      [CHR 0xE2, CHR 0x80, CHR 0x88], [CHR 0xE2, CHR 0x80, CHR 0x89],
      [CHR 0xE2, CHR 0x80, CHR 0x8A], [CHR 0xE2, CHR 0x80, CHR 0xA8],
      [CHR 0xE2, CHR 0x80, CHR 0xA9], [CHR 0xE2, CHR 0x80, CHR 0xAF],
      [CHR 0xE2, CHR 0x81, CHR 0x9F], [CHR 0xE3, CHR 0x80, CHR 0x80]]"

definition spaceWidth :: "string \<Rightarrow> nat" where
  "spaceWidth s = (case find (HasPrefix s) spaceSeqs of None \<Rightarrow> 0 | Some p \<Rightarrow> length p)"

definition spaceWidthEnd :: "string \<Rightarrow> nat" where
  "spaceWidthEnd s = (case find (HasSuffix s) spaceSeqs of None \<Rightarrow> 0 | Some p \<Rightarrow> length p)"

fun trimLeftSpace :: "string \<Rightarrow> string" where
  "trimLeftSpace [] = []"
| "trimLeftSpace (b # bs) =
     (case spaceWidth (b # bs) of 0 \<Rightarrow> b # bs | Suc k \<Rightarrow> trimLeftSpace (drop k bs))"

text \<open>The right trim works on the reversed string, so that it recurses on its head.\<close>

fun trimRightSpaceRev :: "string \<Rightarrow> string" where
  "trimRightSpaceRev [] = []"
| "trimRightSpaceRev (b # bs) =
     (case spaceWidthEnd (rev (b # bs)) of
        0 \<Rightarrow> b # bs
      | Suc k \<Rightarrow> trimRightSpaceRev (drop k bs))"

definition TrimSpace :: "string \<Rightarrow> string" where
  "TrimSpace s = rev (trimRightSpaceRev (rev (trimLeftSpace s)))"

section \<open>Package types: check results\<close>

definition LevelSyntax :: string where "LevelSyntax = ''syntax''"
definition LevelDNS :: string where "LevelDNS = ''dns''"
definition LevelDomain :: string where "LevelDomain = ''domain''"
definition LevelSMTP :: string where "LevelSMTP = ''smtp''"

record CheckResult =
  Level :: string
  Passed :: bool
  Details :: string
  MXHost :: string
  SMTPCode :: int
  Suggestion :: string

text \<open>A composite literal that names only level, outcome and details; the rest is zero.\<close>

definition checkResult :: "string \<Rightarrow> bool \<Rightarrow> string \<Rightarrow> CheckResult" where
  "checkResult l p d =
     \<lparr>Level = l, Passed = p, Details = d, MXHost = [], SMTPCode = 0, Suggestion = []\<rparr>"

section \<open>Package parse: the parsed address\<close>

record parse_Email =
  Raw :: string
  Local :: string
  Domain :: string
  DomainUnicode :: string
  Valid :: bool

definition invalidEmail :: "string \<Rightarrow> parse_Email" where
  "invalidEmail raw =
     \<lparr>Raw = raw, Local = [], Domain = [], DomainUnicode = [], Valid = False\<rparr>"

definition convertDomain :: "extern \<Rightarrow> string \<Rightarrow> (string \<times> string) option" where
  "convertDomain x domain =
     (if list_ex (\<lambda>r. 127 < r) (runes domain) then
        (case idna_Lookup_ToASCII x domain of
           None \<Rightarrow> None
         | Some a \<Rightarrow> Some (a, domain))
      else
        (case idna_Display_ToUnicode x domain of
           None \<Rightarrow> Some (domain, domain)
         | Some u \<Rightarrow> Some (domain, u)))"

definition buildEmail :: "extern \<Rightarrow> string \<Rightarrow> string \<Rightarrow> string \<Rightarrow> parse_Email" where
  "buildEmail x raw local domain =
     (case convertDomain x (ToLower x domain) of
        None \<Rightarrow> invalidEmail raw
      | Some (asciiDomain, unicodeDomain) \<Rightarrow>
          \<lparr>Raw = raw, Local = local, Domain = asciiDomain,
           DomainUnicode = unicodeDomain, Valid = True\<rparr>)"

definition parseManual :: "extern \<Rightarrow> string \<Rightarrow> parse_Email" where
  "parseManual x raw =
     (let atIdx = LastIndexByte raw CHR ''@'' in
      if atIdx < 1 \<or> int (length raw) - 1 \<le> atIdx then invalidEmail raw
      else
        (let local = take (nat atIdx) raw; domain = drop (nat atIdx + 1) raw in
         if local = [] \<or> domain = [] then invalidEmail raw
         else buildEmail x raw local domain))"

definition NewEmail :: "extern \<Rightarrow> string \<Rightarrow> parse_Email" where
  "NewEmail x raw0 =
     (let raw = TrimSpace raw0 in
      case (case mail_ParseAddress x raw of
              Some a \<Rightarrow> Some a
            | None \<Rightarrow> mail_ParseAddress x (''<'' @ raw @ ''>'')) of
        None \<Rightarrow> parseManual x raw
      | Some address \<Rightarrow>
          (case SplitN2 address CHR ''@'' of
             [p0, p1] \<Rightarrow>
               if p0 = [] \<or> p1 = [] then invalidEmail raw else buildEmail x raw p0 p1
           | _ \<Rightarrow> invalidEmail raw))"

section \<open>Package check: the syntax checker\<close>

definition hasQuotedLocal :: "string \<Rightarrow> bool" where
  "hasQuotedLocal raw =
     (let atIdx = LastIndexByte raw CHR ''@'' in
      if atIdx < 1 then False
      else (let local = take (nat atIdx) raw in
            HasPrefix local [CHR 0x22] \<and> HasSuffix local [CHR 0x22]))"

definition asciiSpecial :: string where
  "asciiSpecial = ''!#$%&'' @ [CHR 0x27] @ ''*+/=?^_'' @ [CHR 0x60] @ ''{|}~-.''"

definition isAlnum :: "nat \<Rightarrow> bool" where
  "isAlnum ch = ((0x61 \<le> ch \<and> ch \<le> 0x7A) \<or> (0x41 \<le> ch \<and> ch \<le> 0x5A)
                 \<or> (0x30 \<le> ch \<and> ch \<le> 0x39))"

text \<open>\<^verbatim>\<open>unicode.IsControl\<close>: the C0 and C1 controls and DEL, nothing beyond Latin-1.\<close>

definition IsControl :: "nat \<Rightarrow> bool" where
  "IsControl r = (r < 0x20 \<or> (0x7F \<le> r \<and> r \<le> 0x9F))"

definition IsLetter :: "extern \<Rightarrow> nat \<Rightarrow> bool" where
  "IsLetter x r =
     (if r < 0x80 then (0x61 \<le> r \<and> r \<le> 0x7A) \<or> (0x41 \<le> r \<and> r \<le> 0x5A)
      else unicode_IsLetter x r)"

definition IsDigit :: "extern \<Rightarrow> nat \<Rightarrow> bool" where
  "IsDigit x r = (if r < 0x80 then 0x30 \<le> r \<and> r \<le> 0x39 else unicode_IsDigit x r)"

text \<open>The loop over the runes of the local part: the first complaint, if any.\<close>

fun localRunes :: "nat list \<Rightarrow> string option" where
  "localRunes [] = None"
| "localRunes (ch # rs) =
     (if 127 < ch then
        (if IsControl ch then Some ''local part contains control character''
         else localRunes rs)
      else if isAlnum ch then localRunes rs
      else if \<not> List.member asciiSpecial (char_of ch) then
        Some (''local part contains invalid character: '' @ encodeRune ch)
      else localRunes rs)"

definition validateLocal :: "string \<Rightarrow> string" where
  "validateLocal local =
     (if local = [] then ''local part is empty''
      else if HasPrefix local [CHR 0x22] \<and> HasSuffix local [CHR 0x22] then []
      else
        (case localRunes (runes local) of
           Some e \<Rightarrow> e
         | None \<Rightarrow>
             if HasPrefix local ''.'' \<or> HasSuffix local ''.'' then
               ''local part cannot start or end with a dot''
             else if Contains local ''..'' then
               ''local part cannot contain consecutive dots''
             else []))"

fun labelRunes :: "extern \<Rightarrow> nat list \<Rightarrow> string option" where
  "labelRunes x [] = None"
| "labelRunes x (ch # rs) =
     (if \<not> IsLetter x ch \<and> \<not> IsDigit x ch \<and> ch \<noteq> 0x2D then
        Some (''domain label contains invalid character: '' @ encodeRune ch)
      else labelRunes x rs)"

fun domainLabels :: "extern \<Rightarrow> string list \<Rightarrow> string option" where
  "domainLabels x [] = None"
| "domainLabels x (label # ls) =
     (if label = [] then Some ''domain contains empty label (consecutive dots)''
      else if 63 < length label then Some ''domain label exceeds 63 characters''
      else if HasPrefix label ''-'' \<or> HasSuffix label ''-'' then
        Some ''domain label cannot start or end with a hyphen''
      else (case labelRunes x (runes label) of
              Some e \<Rightarrow> Some e
            | None \<Rightarrow> domainLabels x ls))"

definition validateDomain :: "extern \<Rightarrow> string \<Rightarrow> string" where
  "validateDomain x domain =
     (if domain = [] then ''domain is empty''
      else if HasPrefix domain ''['' \<and> HasSuffix domain '']'' then []
      else
        (let labels = Split domain CHR ''.'' in
         if length labels < 2 then ''domain must have at least two labels''
         else
           (case domainLabels x labels of
              Some e \<Rightarrow> e
            | None \<Rightarrow>
                if list_all (IsDigit x) (runes (last labels)) then
                  ''TLD cannot be all digits''
                else [])))"

definition SyntaxChecker_Check :: "extern \<Rightarrow> parse_Email \<Rightarrow> CheckResult" where
  "SyntaxChecker_Check x email =
     (if Raw email = [] then checkResult LevelSyntax False ''empty email address''
      else if \<not> Valid email then checkResult LevelSyntax False ''invalid email syntax''
      else if 254 < length (Raw email) then
        checkResult LevelSyntax False ''email address exceeds 254 characters''
      else if 64 < length (Local email) then
        checkResult LevelSyntax False ''local part exceeds 64 characters''
      else
        (let e1 = (if hasQuotedLocal (Raw email) then [] else validateLocal (Local email)) in
         if e1 \<noteq> [] then checkResult LevelSyntax False e1
         else
           (let e2 = validateDomain x (DomainUnicode email) in
            if e2 \<noteq> [] then checkResult LevelSyntax False e2
            else checkResult LevelSyntax True ''syntax ok'')))"

section \<open>Package emailkit: results and the validator\<close>

record Result =
  Email :: string
  Valid :: bool
  Checks :: "CheckResult list"

definition zeroResult :: Result where
  "zeroResult = \<lparr>Email = [], Valid = False, Checks = []\<rparr>"

text \<open>
  A \<^verbatim>\<open>context.Context\<close>: its \<^verbatim>\<open>Done\<close> channel is closed from the given instant on,
  or never.
\<close>

datatype Context = Ctx (cancelAt: "int option")

text \<open>
  The \<^verbatim>\<open>checker\<close> interface. A checker may use the DNS cache, the connection pool and
  the network, so it takes the state of the world \<^typ>\<open>'w\<close> and returns it updated.
\<close>

type_synonym 'w checker = "Context \<Rightarrow> parse_Email \<Rightarrow> 'w \<Rightarrow> CheckResult \<times> 'w"

record 'w Validator =
  checkers :: "'w checker list"
  err :: "string option"

definition ErrInvalidSMTPOptions :: string where
  "ErrInvalidSMTPOptions = ''emailkit: SMTPOptions requires HeloDomain and MailFrom''"

definition syntaxChecker :: "extern \<Rightarrow> 'w checker" where
  "syntaxChecker x ctx email w = (SyntaxChecker_Check x email, w)"

definition New :: "extern \<Rightarrow> 'w Validator" where
  "New x = \<lparr>checkers = [syntaxChecker x], err = None\<rparr>"

text \<open>The loop of \<^verbatim>\<open>Validate\<close>: it returns at the first check that did not pass.\<close>

fun validateLoop ::
  "'w checker list \<Rightarrow> Context \<Rightarrow> parse_Email \<Rightarrow> Result \<Rightarrow> 'w \<Rightarrow> Result \<times> 'w" where
  "validateLoop [] ctx parsed result w = (result\<lparr>Valid := True\<rparr>, w)"
| "validateLoop (c # cs) ctx parsed result w =
     (case c ctx parsed w of
        (cr, w') \<Rightarrow>
          (let result' = result\<lparr>Checks := Checks result @ [cr]\<rparr> in
           if \<not> Passed cr then (result'\<lparr>Valid := False\<rparr>, w')
           else validateLoop cs ctx parsed result' w'))"

definition Validate ::
  "extern \<Rightarrow> 'w Validator \<Rightarrow> Context \<Rightarrow> string \<Rightarrow> 'w \<Rightarrow> (Result \<times> string option) \<times> 'w" where
  "Validate x v ctx email w =
     (case err v of
        Some e \<Rightarrow> ((zeroResult, Some e), w)
      | None \<Rightarrow>
          (case validateLoop (checkers v) ctx (NewEmail x email)
                  \<lparr>Email = email, Valid = False, Checks = []\<rparr> w of
             (result, w') \<Rightarrow> ((result, None), w')))"

text \<open>The loop of \<^verbatim>\<open>ValidateAll\<close>: it never stops early.\<close>

fun validateAllLoop ::
  "'w checker list \<Rightarrow> Context \<Rightarrow> parse_Email \<Rightarrow> Result \<Rightarrow> 'w \<Rightarrow> Result \<times> 'w" where
  "validateAllLoop [] ctx parsed result w = (result, w)"
| "validateAllLoop (c # cs) ctx parsed result w =
     (case c ctx parsed w of
        (cr, w') \<Rightarrow>
          (let result' = result\<lparr>Checks := Checks result @ [cr]\<rparr> in
           validateAllLoop cs ctx parsed
             (if \<not> Passed cr then result'\<lparr>Valid := False\<rparr> else result') w'))"

definition ValidateAll ::
  "extern \<Rightarrow> 'w Validator \<Rightarrow> Context \<Rightarrow> string \<Rightarrow> 'w \<Rightarrow> (Result \<times> string option) \<times> 'w" where
  "ValidateAll x v ctx email w =
     (case err v of
        Some e \<Rightarrow> ((zeroResult, Some e), w)
      | None \<Rightarrow>
          (case validateAllLoop (checkers v) ctx (NewEmail x email)
                  \<lparr>Email = email, Valid = True, Checks = []\<rparr> w of
             (result, w') \<Rightarrow> ((result, None), w')))"

text \<open>An instance of the external parameters, for evaluating the model on concrete inputs.\<close>

definition extern0 :: extern where
  "extern0 =
     \<lparr>mail_ParseAddress = (\<lambda>s. None), idna_Lookup_ToASCII = (\<lambda>s. None),
      idna_Display_ToUnicode = (\<lambda>s. Some s), unicode_ToLower = (\<lambda>s. s),
      unicode_IsLetter = (\<lambda>r. True), unicode_IsDigit = (\<lambda>r. False),
      rawList = ''# disposable domains'' @ [CHR 0x0A] @ ''mailinator.com'' @ [CHR 0x0A]\<rparr>"

text \<open>
  An address with a local part of 22 copies of U+7528, three bytes each in UTF-8:
  22 characters, 66 bytes.
\<close>

definition han :: string where
  "han = [CHR 0xE7, CHR 0x94, CHR 0xA8]"

definition longLocal :: string where
  "longLocal = concat (replicate 22 han)"

definition hanAddress :: string where
  "hanAddress = longLocal @ ''@example.com''"

section \<open>Package levenshtein\<close>

definition min3 :: "int \<Rightarrow> int \<Rightarrow> int \<Rightarrow> int" where
  "min3 a b c = (if a < b then (if a < c then a else c) else (if b < c then b else c))"

text \<open>
  The inner loop of \<^verbatim>\<open>Distance\<close> for one rune \<^verbatim>\<open>tc\<close>: given \<^verbatim>\<open>curr[i]\<close> and the
  previous row from index \<^verbatim>\<open>i\<close> on, the entries \<^verbatim>\<open>curr[i+1]\<close>, \<^verbatim>\<open>curr[i+2]\<close>, ...
  The previous row is one longer than the runes left; the last equation is never reached.
\<close>

fun innerLoop :: "nat \<Rightarrow> nat list \<Rightarrow> int \<Rightarrow> int list \<Rightarrow> int list" where
  "innerLoop tc [] ci prev = []"
| "innerLoop tc (sc # sr) ci (p0 # p1 # ps) =
     (let cost = (if sc = tc then 0 else 1);
          c = min3 (ci + 1) (p1 + 1) (p0 + cost)
      in c # innerLoop tc sr c (p1 # ps))"
| "innerLoop tc (sc # sr) ci prev = []"

text \<open>The outer loop: \<^verbatim>\<open>curr[0] = j + 1\<close>, the inner loop, then the two rows are swapped.\<close>

fun outerLoop :: "nat list \<Rightarrow> nat list \<Rightarrow> int \<Rightarrow> int list \<Rightarrow> int list" where
  "outerLoop sr [] j prev = prev"
| "outerLoop sr (tc # tr) j prev =
     outerLoop sr tr (j + 1) ((j + 1) # innerLoop tc sr (j + 1) prev)"

definition Distance :: "string \<Rightarrow> string \<Rightarrow> int" where
  "Distance s t =
     (let sr0 = runes s; tr0 = runes t in
      if sr0 = [] then int (length tr0)
      else if tr0 = [] then int (length sr0)
      else
        (let sr = (if length tr0 < length sr0 then tr0 else sr0);
             tr = (if length tr0 < length sr0 then sr0 else tr0)
         in outerLoop sr tr 0 (map int [0..<length sr + 1]) ! length sr))"

section \<open>Package disposable\<close>

text \<open>The set built by \<^verbatim>\<open>init\<close> from the embedded list, one domain per line.\<close>

definition disposableSet :: "extern \<Rightarrow> string list" where
  "disposableSet x =
     map (ToLower x)
       (filter (\<lambda>line. line \<noteq> [] \<and> \<not> HasPrefix line ''#'')
          (map TrimSpace (Split (rawList x) (CHR 0x0A))))"

definition IsDisposable :: "extern \<Rightarrow> string \<Rightarrow> bool" where
  "IsDisposable x domain = List.member (disposableSet x) (ToLower x domain)"

section \<open>Package check: the domain checker\<close>

text \<open>
  \<^verbatim>\<open>DomainConfig\<close>; the \<^verbatim>\<open>DomainOptions\<close> of the validator have the same three fields
  and are copied field by field, so one record stands for both.
\<close>

record DomainConfig =
  CheckDisposable :: bool
  CheckTypos :: bool
  TypoThreshold :: int

record DomainChecker =
  cfg :: DomainConfig
  knownProviders :: "string list"

definition defaultKnownProviders :: "string list" where
  "defaultKnownProviders =
     [''gmail.com'', ''googlemail.com'',
      ''yahoo.com'', ''yahoo.co.uk'', ''yahoo.fr'', ''yahoo.de'',
      ''outlook.com'', ''hotmail.com'', ''hotmail.co.uk'', ''live.com'',
      ''icloud.com'', ''me.com'', ''mac.com'',
      ''protonmail.com'', ''proton.me'',
      ''aol.com'',
      ''zoho.com'',
      ''yandex.com'', ''yandex.ru'',
      ''mail.com'',
      ''gmx.com'', ''gmx.net'', ''gmx.de'',
      ''fastmail.com'',
      ''tutanota.com'',
      ''freemail.hu'', ''citromail.hu'', ''t-online.hu'', ''invitel.hu'']"

definition NewDomainChecker :: "DomainConfig \<Rightarrow> DomainChecker" where
  "NewDomainChecker c = \<lparr>cfg = c, knownProviders = defaultKnownProviders\<rparr>"

text \<open>Go's \<^verbatim>\<open>int\<close> has 64 bits; \<^verbatim>\<open>TypoThreshold + 1\<close> wraps around at the top.\<close>

definition wrap64 :: "int \<Rightarrow> int" where
  "wrap64 i = (i + 2 ^ 63) mod 2 ^ 64 - 2 ^ 63"

fun typoLoop :: "int \<Rightarrow> string \<Rightarrow> string list \<Rightarrow> int \<Rightarrow> string \<Rightarrow> string" where
  "typoLoop th domain [] bestDist bestMatch = bestMatch"
| "typoLoop th domain (provider # ps) bestDist bestMatch =
     (if domain = provider then []
      else
        (let dist = Distance domain provider in
         if dist \<le> th \<and> dist < bestDist then typoLoop th domain ps dist provider
         else typoLoop th domain ps bestDist bestMatch))"

definition findTypoSuggestion :: "DomainChecker \<Rightarrow> string \<Rightarrow> string" where
  "findTypoSuggestion c domain =
     typoLoop (TypoThreshold (cfg c)) domain (knownProviders c)
       (wrap64 (TypoThreshold (cfg c) + 1)) []"

definition DomainChecker_Check :: "extern \<Rightarrow> DomainChecker \<Rightarrow> parse_Email \<Rightarrow> CheckResult" where
  "DomainChecker_Check x c email =
     (if \<not> parse_Email.Valid email then
        checkResult LevelDomain False ''skipped: invalid email''
      else
        (let asciiDomain = ToLower x (Domain email);
             unicodeDomain = ToLower x (DomainUnicode email)
         in
           if CheckDisposable (cfg c) \<and> IsDisposable x asciiDomain then
             checkResult LevelDomain False ''disposable email domain detected''
           else if CheckTypos (cfg c) \<and> findTypoSuggestion c unicodeDomain \<noteq> [] then
             (checkResult LevelDomain True ''possible typo in domain'')
               \<lparr>Suggestion := findTypoSuggestion c unicodeDomain\<rparr>
           else checkResult LevelDomain True ''domain ok''))"

section \<open>Package emailkit: the domain level of the validator\<close>

definition defaultDomainOptions :: DomainConfig where
  "defaultDomainOptions = \<lparr>CheckDisposable = True, CheckTypos = True, TypoThreshold = 2\<rparr>"

definition domainChecker :: "extern \<Rightarrow> DomainChecker \<Rightarrow> 'w checker" where
  "domainChecker x c ctx email w = (DomainChecker_Check x c email, w)"

text \<open>\<^verbatim>\<open>WithDomain(opts ...DomainOptions)\<close>: the first option given, else the defaults.\<close>

definition WithDomain :: "extern \<Rightarrow> 'w Validator \<Rightarrow> DomainConfig list \<Rightarrow> 'w Validator" where
  "WithDomain x v opts =
     (let opt = (case opts of [] \<Rightarrow> defaultDomainOptions | opt0 # _ \<Rightarrow> opt0) in
      v\<lparr>checkers := checkers v @ [domainChecker x (NewDomainChecker opt)]\<rparr>)"

section \<open>Properties\<close>

subsection \<open>The validation pipeline\<close>

lemma validateLoop_valid:
  "list_all Passed (Checks result) \<Longrightarrow> validateLoop cs ctx parsed result w = (r, w')
   \<Longrightarrow> Result.Valid r = list_all Passed (Checks r)"
proof (induction cs arbitrary: result w)
  case Nil
  then show ?case by auto
next
  case (Cons c cs)
  obtain cr w1 where c: "c ctx parsed w = (cr, w1)" by (cases "c ctx parsed w")
  show ?case
  proof (cases "Passed cr")
    case True
    with Cons.prems c have
      "validateLoop cs ctx parsed (result\<lparr>Checks := Checks result @ [cr]\<rparr>) w1 = (r, w')"
      by (simp add: Let_def)
    moreover have "list_all Passed (Checks (result\<lparr>Checks := Checks result @ [cr]\<rparr>))"
      using True Cons.prems(1) by simp
    ultimately show ?thesis using Cons.IH by blast
  next
    case False
    with Cons.prems c show ?thesis by (auto simp: Let_def)
  qed
qed

lemma validateAllLoop_valid:
  "Result.Valid result = list_all Passed (Checks result)
   \<Longrightarrow> validateAllLoop cs ctx parsed result w = (r, w')
   \<Longrightarrow> Result.Valid r = list_all Passed (Checks r)"
proof (induction cs arbitrary: result w)
  case Nil
  then show ?case by auto
next
  case (Cons c cs)
  obtain cr w1 where c: "c ctx parsed w = (cr, w1)" by (cases "c ctx parsed w")
  let ?r1 = "result\<lparr>Checks := Checks result @ [cr]\<rparr>"
  let ?r2 = "if \<not> Passed cr then ?r1\<lparr>Valid := False\<rparr> else ?r1"
  from Cons.prems c have "validateAllLoop cs ctx parsed ?r2 w1 = (r, w')"
    by (simp add: Let_def)
  moreover have "Result.Valid ?r2 = list_all Passed (Checks ?r2)"
    using Cons.prems(1) by simp
  ultimately show ?case using Cons.IH by blast
qed

text \<open>
  Claim C1. On a validator whose configuration error is not latched, \<^verbatim>\<open>Validate\<close> and
  \<^verbatim>\<open>ValidateAll\<close> return no top-level error, whatever the input string, the
  checkers and the state of the world are, and the result is valid exactly when every
  check result in it has passed.
\<close>

theorem Validate_valid_iff_all_passed:
  assumes "err v = None"
  shows "snd (fst (Validate x v ctx email w)) = None
       \<and> Result.Valid (fst (fst (Validate x v ctx email w)))
           = list_all Passed (Checks (fst (fst (Validate x v ctx email w))))
       \<and> snd (fst (ValidateAll x v ctx email w)) = None
       \<and> Result.Valid (fst (fst (ValidateAll x v ctx email w)))
           = list_all Passed (Checks (fst (fst (ValidateAll x v ctx email w))))"
proof -
  obtain r w' where l: "validateLoop (checkers v) ctx (NewEmail x email)
        \<lparr>Email = email, Valid = False, Checks = []\<rparr> w = (r, w')"
    by (cases "validateLoop (checkers v) ctx (NewEmail x email)
        \<lparr>Email = email, Valid = False, Checks = []\<rparr> w")
  obtain ra wa where la: "validateAllLoop (checkers v) ctx (NewEmail x email)
        \<lparr>Email = email, Valid = True, Checks = []\<rparr> w = (ra, wa)"
    by (cases "validateAllLoop (checkers v) ctx (NewEmail x email)
        \<lparr>Email = email, Valid = True, Checks = []\<rparr> w")
  have 1: "Result.Valid r = list_all Passed (Checks r)"
    using validateLoop_valid[OF _ l] by simp
  have 2: "Result.Valid ra = list_all Passed (Checks ra)"
    using validateAllLoop_valid[OF _ la] by simp
  show ?thesis using assms l la 1 2 by (simp add: Validate_def ValidateAll_def)
qed

theorem Validate_valid_iff_all_passed_witness:
  "err (New extern0 :: unit Validator) = None
   \<and> Validate extern0 (New extern0) (Ctx None) ''user@example.com'' ()
       = ((\<lparr>Email = ''user@example.com'', Valid = True,
            Checks = [checkResult LevelSyntax True ''syntax ok'']\<rparr>, None), ())
   \<and> list_all Passed [checkResult LevelSyntax True ''syntax ok'']"
  using Validate_valid_iff_all_passed
    [of "New extern0 :: unit Validator" extern0 "Ctx None" "''user@example.com''" "()"]
  by code_simp

lemma Raw_buildEmail: "Raw (buildEmail x raw l d) = raw"
  by (simp add: buildEmail_def invalidEmail_def split: option.splits prod.splits)

lemma Raw_parseManual: "Raw (parseManual x raw) = raw"
  by (simp add: parseManual_def Let_def invalidEmail_def Raw_buildEmail)

lemma Raw_NewEmail: "Raw (NewEmail x email) = TrimSpace email"
  by (simp add: NewEmail_def Let_def invalidEmail_def Raw_buildEmail Raw_parseManual
      split: option.splits list.splits)

text \<open>
  Claim C10. On a validator with no latched configuration error, whose pipeline starts
  with the syntax checker as every pipeline built from \<^verbatim>\<open>New\<close> does, an input that
  trims to the empty string yields an invalid result with exactly one check result: level
  syntax, details "empty email address". An input that is not empty after trimming and
  does not parse yields the other diagnostic, "invalid email syntax".
\<close>

theorem Validate_empty_address:
  assumes "err v = None" and "checkers v = syntaxChecker x # cs"
  shows "(TrimSpace email = [] \<longrightarrow>
            Validate x v ctx email w
              = ((\<lparr>Email = email, Valid = False,
                   Checks = [checkResult LevelSyntax False ''empty email address'']\<rparr>, None), w))
       \<and> (TrimSpace email \<noteq> [] \<and> \<not> parse_Email.Valid (NewEmail x email) \<longrightarrow>
            Validate x v ctx email w
              = ((\<lparr>Email = email, Valid = False,
                   Checks = [checkResult LevelSyntax False ''invalid email syntax'']\<rparr>, None), w))"
  using assms
  by (simp add: Validate_def syntaxChecker_def SyntaxChecker_Check_def Raw_NewEmail
      checkResult_def)

theorem Validate_empty_address_witness:
  "err (New extern0 :: unit Validator) = None
   \<and> checkers (New extern0 :: unit Validator) = syntaxChecker extern0 # []
   \<and> TrimSpace ([CHR 0x20, CHR 0x09, CHR 0xC2, CHR 0xA0]) = []
   \<and> Validate extern0 (New extern0) (Ctx None) [CHR 0x20, CHR 0x09, CHR 0xC2, CHR 0xA0] ()
       = ((\<lparr>Email = [CHR 0x20, CHR 0x09, CHR 0xC2, CHR 0xA0], Valid = False,
            Checks = [checkResult LevelSyntax False ''empty email address'']\<rparr>, None), ())"
proof -
  have 1: "err (New extern0 :: unit Validator) = None" by (simp add: New_def)
  have 2: "checkers (New extern0 :: unit Validator) = syntaxChecker extern0 # []"
    by (simp add: New_def)
  have 3: "TrimSpace ([CHR 0x20, CHR 0x09, CHR 0xC2, CHR 0xA0]) = []" by code_simp
  show ?thesis
    using Validate_empty_address[OF 1 2, of "[CHR 0x20, CHR 0x09, CHR 0xC2, CHR 0xA0]" "Ctx None" "()"] 1 2 3
    by simp
qed

subsection \<open>The syntax checker\<close>

lemma localRunes_msg: "localRunes rs = Some e \<Longrightarrow> take 12 e = ''local part c''"
  by (induction rs) (auto split: if_splits)

lemma validateLocal_msg:
  "validateLocal l = [] \<or> take 12 (validateLocal l) = ''local part i''
   \<or> take 12 (validateLocal l) = ''local part c''"
  by (auto simp: validateLocal_def split: option.splits dest: localRunes_msg)

lemma labelRunes_msg: "labelRunes x rs = Some e \<Longrightarrow> take 1 e = ''d''"
  by (induction rs) (auto split: if_splits)

lemma domainLabels_msg: "domainLabels x ls = Some e \<Longrightarrow> take 1 e = ''d''"
  by (induction ls) (auto split: if_splits option.splits dest: labelRunes_msg)

lemma validateDomain_msg:
  "validateDomain x d = [] \<or> take 1 (validateDomain x d) = ''d''
   \<or> take 1 (validateDomain x d) = ''T''"
  by (auto simp: validateDomain_def Let_def split: option.splits dest: domainLabels_msg)

text \<open>
  Claim C8, as amended. The two limits are on Go's \<^verbatim>\<open>len\<close>, the number of bytes of the
  UTF-8 form: for every parsed, valid address the syntax check fails when the address is
  longer than 254 bytes or its local part longer than 64 bytes, and an address within both
  byte limits never gets one of the two length diagnostics.
\<close>

theorem SyntaxChecker_length_limits:
  assumes "Raw email \<noteq> []" and "parse_Email.Valid email"
  shows "(254 < length (Raw email) \<or> 64 < length (Local email)
            \<longrightarrow> \<not> Passed (SyntaxChecker_Check x email))
       \<and> (length (Raw email) \<le> 254 \<and> length (Local email) \<le> 64
            \<longrightarrow> Details (SyntaxChecker_Check x email) \<noteq> ''email address exceeds 254 characters''
              \<and> Details (SyntaxChecker_Check x email) \<noteq> ''local part exceeds 64 characters'')"
proof -
  have a: "\<And>e. take 12 e = ''local part i'' \<or> take 12 e = ''local part c''
      \<Longrightarrow> e \<noteq> ''email address exceeds 254 characters'' \<and> e \<noteq> ''local part exceeds 64 characters''"
    by auto
  have b: "\<And>e. take 1 e = ''d'' \<or> take 1 e = ''T''
      \<Longrightarrow> e \<noteq> ''email address exceeds 254 characters'' \<and> e \<noteq> ''local part exceeds 64 characters''"
    by auto
  show ?thesis
    using assms validateLocal_msg[of "Local email"] validateDomain_msg[of x "DomainUnicode email"]
      a[of "validateLocal (Local email)"] b[of "validateDomain x (DomainUnicode email)"]
    by (auto simp: SyntaxChecker_Check_def checkResult_def Let_def)
qed

lemma longLocal_bytes: "longLocal = [CHR 0xE7, CHR 0x94, CHR 0xA8, CHR 0xE7, CHR 0x94, CHR 0xA8, CHR 0xE7,
     CHR 0x94, CHR 0xA8, CHR 0xE7, CHR 0x94, CHR 0xA8, CHR 0xE7, CHR 0x94,
     CHR 0xA8, CHR 0xE7, CHR 0x94, CHR 0xA8, CHR 0xE7, CHR 0x94, CHR 0xA8,
     CHR 0xE7, CHR 0x94, CHR 0xA8, CHR 0xE7, CHR 0x94, CHR 0xA8, CHR 0xE7,
     CHR 0x94, CHR 0xA8, CHR 0xE7, CHR 0x94, CHR 0xA8, CHR 0xE7, CHR 0x94,
     CHR 0xA8, CHR 0xE7, CHR 0x94, CHR 0xA8, CHR 0xE7, CHR 0x94, CHR 0xA8,
     CHR 0xE7, CHR 0x94, CHR 0xA8, CHR 0xE7, CHR 0x94, CHR 0xA8, CHR 0xE7,
     CHR 0x94, CHR 0xA8, CHR 0xE7, CHR 0x94, CHR 0xA8, CHR 0xE7, CHR 0x94,
     CHR 0xA8, CHR 0xE7, CHR 0x94, CHR 0xA8, CHR 0xE7, CHR 0x94, CHR 0xA8,
     CHR 0xE7, CHR 0x94, CHR 0xA8]"
  by (simp add: longLocal_def han_def eval_nat_numeral)

lemma hanAddress_parsed:
  "NewEmail extern0 hanAddress
     = \<lparr>Raw = hanAddress, Local = longLocal, Domain = ''example.com'',
        DomainUnicode = ''example.com'', Valid = True\<rparr>"
  unfolding hanAddress_def longLocal_bytes
  by (simp add: NewEmail_def TrimSpace_def spaceWidth_def spaceWidthEnd_def spaceSeqs_def
      HasPrefix_def HasSuffix_def extern0_def parseManual_def Let_def buildEmail_def
      convertDomain_def ToLower_def isASCII_def lowerByte_def isUpper_def runes_def)

text \<open>
  Claim C8 as stated, in characters, fails: this address has 34 characters and a local
  part of 22 characters, every other rule of the checker accepts it, and the check fails
  with the diagnostic of the local-part length limit, since the local part has 66 bytes.
\<close>

theorem SyntaxChecker_length_counterexample:
  "parse_Email.Valid (NewEmail extern0 hanAddress)
   \<and> length (runes (Raw (NewEmail extern0 hanAddress))) = 34
   \<and> length (runes (Local (NewEmail extern0 hanAddress))) = 22
   \<and> validateLocal (Local (NewEmail extern0 hanAddress)) = []
   \<and> validateDomain extern0 (DomainUnicode (NewEmail extern0 hanAddress)) = []
   \<and> SyntaxChecker_Check extern0 (NewEmail extern0 hanAddress)
       = checkResult LevelSyntax False ''local part exceeds 64 characters''"
proof -
  have 1: "length (runes hanAddress) = 34"
    unfolding hanAddress_def longLocal_bytes by (simp add: runes_def cont_def)
  have 2: "length (runes longLocal) = 22"
    unfolding longLocal_bytes by (simp add: runes_def cont_def)
  have 3: "validateLocal longLocal = []"
    unfolding longLocal_bytes
    by (simp add: validateLocal_def HasPrefix_def HasSuffix_def runes_def cont_def IsControl_def)
  have 4: "validateDomain extern0 ''example.com'' = []"
    by (simp add: validateDomain_def HasPrefix_def HasSuffix_def Let_def runes_def IsLetter_def
        IsDigit_def)
  have 5: "length hanAddress = 78" "length longLocal = 66"
    unfolding hanAddress_def longLocal_bytes by simp_all
  have 6: "hanAddress \<noteq> []" unfolding hanAddress_def by simp
  show ?thesis
    unfolding hanAddress_parsed using 1 2 3 4 5 6
    by (simp add: SyntaxChecker_Check_def)
qed

theorem SyntaxChecker_length_limits_witness:
  "Raw (NewEmail extern0 ''user@example.com'') \<noteq> []
   \<and> parse_Email.Valid (NewEmail extern0 ''user@example.com'')
   \<and> length (Raw (NewEmail extern0 ''user@example.com'')) \<le> 254
   \<and> length (Local (NewEmail extern0 ''user@example.com'')) \<le> 64
   \<and> Details (SyntaxChecker_Check extern0 (NewEmail extern0 ''user@example.com''))
        \<noteq> ''local part exceeds 64 characters''"
proof -
  have p: "NewEmail extern0 ''user@example.com''
     = \<lparr>Raw = ''user@example.com'', Local = ''user'', Domain = ''example.com'',
        DomainUnicode = ''example.com'', Valid = True\<rparr>"
    by code_simp
  show ?thesis
    using SyntaxChecker_length_limits[of "NewEmail extern0 ''user@example.com''" extern0]
    unfolding p by simp
qed

end
